theory Spec2Isabelle
  imports Complex_Main
begin

section \<open>Python values and errors\<close>

text \<open>
  The exceptions the modelled code can raise. A function that can raise returns
  \<open>error + 'a\<close>, with \<open>Inl\<close> for the exception.
\<close>

datatype error = AttributeError | TypeError | ValueError | ZeroDivisionError

section \<open>util.py: great-circle distance and driving time\<close>

text \<open>
  Python floats are idealised as real numbers: arithmetic is exact, and there is no
  infinity and no NaN. \<open>math.sqrt\<close> raises \<open>ValueError\<close> on a negative argument,
  \<open>math.atan2\<close> is the angle of the point \<open>(x, y)\<close> in \<open>(-pi, pi]\<close>, and a float
  division by zero raises \<open>ZeroDivisionError\<close>.
\<close>

definition radians :: "real \<Rightarrow> real" where
  "radians d = d * pi / 180"

definition py_sqrt :: "real \<Rightarrow> error + real" where
  "py_sqrt x = (if x < 0 then Inl ValueError else Inr (sqrt x))"

definition atan2 :: "real \<Rightarrow> real \<Rightarrow> real" where
  "atan2 y x =
     (if 0 < x then arctan (y / x)
      else if x < 0 then (if 0 \<le> y then arctan (y / x) + pi else arctan (y / x) - pi)
      else if 0 < y then pi / 2
      else if y < 0 then - (pi / 2)
      else 0)"

definition R :: real where
  "R = 39588 / 10"

definition haversine_a :: "real \<Rightarrow> real \<Rightarrow> real \<Rightarrow> real \<Rightarrow> real" where
  "haversine_a lat1 lon1 lat2 lon2 =
     (let lat1 = radians lat1; lon1 = radians lon1;
          lat2 = radians lat2; lon2 = radians lon2;
          dLat = lat2 - lat1;
          dLon = lon2 - lon1
      in (sin (dLat / 2))\<^sup>2 + cos lat1 * cos lat2 * (sin (dLon / 2))\<^sup>2)"

definition harvesine :: "real \<Rightarrow> real \<Rightarrow> real \<Rightarrow> real \<Rightarrow> error + real" where
  "harvesine lat1 lon1 lat2 lon2 =
     (let a = haversine_a lat1 lon1 lat2 lon2
      in case py_sqrt a of
           Inl e \<Rightarrow> Inl e
         | Inr sa \<Rightarrow>
             (case py_sqrt (1 - a) of
                Inl e \<Rightarrow> Inl e
              | Inr sb \<Rightarrow> Inr (R * (2 * atan2 sa sb))))"

definition driving_time :: "real \<Rightarrow> real \<Rightarrow> real \<Rightarrow> real \<Rightarrow> real \<Rightarrow> error + real" where
  "driving_time lat1 lon1 lat2 lon2 speed_mph =
     (case harvesine lat1 lon1 lat2 lon2 of
        Inl e \<Rightarrow> Inl e
      | Inr distance \<Rightarrow>
          (if speed_mph = 0 then Inl ZeroDivisionError else Inr (distance / speed_mph)))"

section \<open>main.py: parsed JSON\<close>

text \<open>
  The response of the API after \<open>response.json()\<close>: Python values built from
  \<open>None\<close>, booleans, integers, floats, strings, lists and dicts. A float is
  idealised as a real number (exact arithmetic, no infinity, no NaN), and the
  conversion of an integer or of a digit string to a float is exact: the rounding to
  the nearest double, which changes integers beyond \<open>2^53\<close>, and the
  \<open>OverflowError\<close> of an integer too large for a float are not modelled. A Python \<open>str\<close> is a list of
  characters, each character one of the code points U+0000 to U+00FF. A dict is its
  list of items, read through \<open>map_of\<close>: the keys of a dict are distinct, and of
  two items with the same key the first would count.
\<close>

datatype json =
    JNull
  | JBool bool
  | JInt int
  | JFloat real
  | JStr string
  | JList "json list"
  | JDict "(string \<times> json) list"

type_synonym pydict = "(string \<times> json) list"

text \<open>\<open>d.get(k, dflt)\<close> on a value known to be a dict.\<close>

definition dict_get :: "pydict \<Rightarrow> string \<Rightarrow> json \<Rightarrow> json" where
  "dict_get kvs k dflt = (case map_of kvs k of None \<Rightarrow> dflt | Some v \<Rightarrow> v)"

text \<open>
  \<open>obj.get(k, dflt)\<close> on any parsed value: only a dict has the method, every
  other value raises \<open>AttributeError\<close>.
\<close>

definition get :: "json \<Rightarrow> string \<Rightarrow> json \<Rightarrow> error + json" where
  "get obj k dflt =
     (case obj of JDict kvs \<Rightarrow> Inr (dict_get kvs k dflt) | _ \<Rightarrow> Inl AttributeError)"

text \<open>
  \<open>for x in v\<close>: a list gives its elements, a dict its keys, a string its
  characters; any other value raises \<open>TypeError\<close>.
\<close>

fun py_iter :: "json \<Rightarrow> error + json list" where
  "py_iter (JList xs) = Inr xs"
| "py_iter (JDict kvs) = Inr (map (\<lambda>kv. JStr (fst kv)) kvs)"
| "py_iter (JStr s) = Inr (map (\<lambda>c. JStr [c]) s)"
| "py_iter JNull = Inl TypeError"
| "py_iter (JBool b) = Inl TypeError"
| "py_iter (JInt i) = Inl TypeError"
| "py_iter (JFloat q) = Inl TypeError"

text \<open>Truth value of a Python value, as \<open>not v\<close> and \<open>a or b\<close> test it.\<close>

fun truthy :: "json \<Rightarrow> bool" where
  "truthy JNull = False"
| "truthy (JBool b) = b"
| "truthy (JInt i) = (i \<noteq> 0)"
| "truthy (JFloat q) = (q \<noteq> 0)"
| "truthy (JStr s) = (s \<noteq> [])"
| "truthy (JList xs) = (xs \<noteq> [])"
| "truthy (JDict kvs) = (kvs \<noteq> [])"

definition py_or :: "json \<Rightarrow> json \<Rightarrow> json" where
  "py_or a b = (if truthy a then a else b)"

subsection \<open>\<open>str()\<close> and number formatting\<close>

definition digit_char :: "nat \<Rightarrow> char" where
  "digit_char d = ''0123456789'' ! d"

fun digits10 :: "nat \<Rightarrow> string" where
  "digits10 n =
     (if n < 10 then [digit_char n] else digits10 (n div 10) @ [digit_char (n mod 10)])"

declare digits10.simps [simp del]

definition str_int :: "int \<Rightarrow> string" where
  "str_int i = (if i < 0 then ''-'' @ digits10 (nat (- i)) else digits10 (nat i))"

text \<open>
  \<open>str(v)\<close>. The text of a float, a list or a dict is Python's \<open>repr\<close> of it,
  which depends on the binary representation of the floats inside; it is the
  parameter \<open>repr\<close>.
\<close>

fun py_str :: "(json \<Rightarrow> string) \<Rightarrow> json \<Rightarrow> string" where
  "py_str repr JNull = ''None''"
| "py_str repr (JBool b) = (if b then ''True'' else ''False'')"
| "py_str repr (JInt i) = str_int i"
| "py_str repr (JStr s) = s"
| "py_str repr (JFloat q) = repr (JFloat q)"
| "py_str repr (JList xs) = repr (JList xs)"
| "py_str repr (JDict kvs) = repr (JDict kvs)"

text \<open>
  The format \<open>,.0f\<close>: the value rounded to the nearest integer, ties to the even
  one, no decimals, a comma before every group of three digits, and the sign of a
  negative value in front.
\<close>

definition round_half_even :: "real \<Rightarrow> int" where
  "round_half_even x =
     (let f = \<lfloor>x\<rfloor>; r = x - of_int f
      in if r < 1 / 2 then f
         else if 1 / 2 < r then f + 1
         else if even f then f else f + 1)"

fun group3 :: "string \<Rightarrow> string" where
  "group3 ds =
     (if length ds \<le> 3 then ds
      else group3 (take (length ds - 3) ds) @ '','' @ drop (length ds - 3) ds)"

declare group3.simps [simp del]

definition fmt_comma_0f :: "real \<Rightarrow> string" where
  "fmt_comma_0f x =
     (if x < 0 then ''-'' else []) @ group3 (digits10 (nat (round_half_even \<bar>x\<bar>)))"

subsection \<open>\<open>str.isdigit\<close>, \<open>str.replace\<close> and \<open>float\<close>\<close>

text \<open>
  \<open>str.isdigit\<close> holds of a non-empty string of digit characters, and the digit
  characters include, beside the decimal digits, the compatibility superscript
  digits. Among the code points below 256 these are the ten decimal digits and the
  superscripts U+00B2, U+00B3 and U+00B9; only the former are decimal digits, which
  \<open>float\<close> accepts.
\<close>

definition ascii_digit :: "char \<Rightarrow> bool" where
  "ascii_digit c = (48 \<le> (of_char c :: nat) \<and> (of_char c :: nat) \<le> 57)"

definition char_isdigit :: "char \<Rightarrow> bool" where
  "char_isdigit c =
     (ascii_digit c \<or> (of_char c :: nat) = 178 \<or> (of_char c :: nat) = 179
      \<or> (of_char c :: nat) = 185)"

definition isdigit :: "string \<Rightarrow> bool" where
  "isdigit s = (s \<noteq> [] \<and> list_all char_isdigit s)"

text \<open>\<open>s.replace(".", "", 1)\<close>: the first point of \<open>s\<close>, if any, is removed.\<close>

definition replace_dot_once :: "string \<Rightarrow> string" where
  "replace_dot_once s = remove1 (CHR ''.'') s"

definition digits_val :: "string \<Rightarrow> nat" where
  "digits_val s = foldl (\<lambda>acc c. 10 * acc + ((of_char c :: nat) - 48)) 0 s"

text \<open>
  \<open>float(s)\<close>, as far as \<open>format_price\<close> calls it: on a string of \<open>isdigit\<close>
  characters and at most one point. It is the decimal value of the string when every
  digit is a decimal digit, and raises \<open>ValueError\<close> otherwise.
\<close>

definition py_float :: "string \<Rightarrow> error + real" where
  "py_float s =
     (if list_all (\<lambda>c. ascii_digit c \<or> c = CHR ''.'') s \<and> list_ex ascii_digit s
         \<and> count_list s (CHR ''.'') \<le> 1
      then Inr (of_nat (digits_val (replace_dot_once s))
                / 10 ^ (length (dropWhile (\<lambda>c. c \<noteq> CHR ''.'') s) - 1))
      else Inl ValueError)"

subsection \<open>\<open>format_price\<close>\<close>

text \<open>
  The tests in the order of the source: \<open>None\<close>; a string that passes the guard;
  an \<open>int\<close> or a \<open>float\<close>, a \<open>bool\<close> being an \<open>int\<close> with the values 1
  and 0; anything else.
\<close>

definition format_price :: "(json \<Rightarrow> string) \<Rightarrow> json \<Rightarrow> error + string" where
  "format_price repr price =
     (case price of
        JNull \<Rightarrow> Inr ''N/A''
      | JStr s \<Rightarrow>
          (if isdigit (replace_dot_once s)
           then (case py_float s of
                   Inl e \<Rightarrow> Inl e
                 | Inr x \<Rightarrow> Inr (''$'' @ fmt_comma_0f x))
           else Inr (py_str repr price))
      | JBool b \<Rightarrow> Inr (''$'' @ fmt_comma_0f (if b then 1 else 0))
      | JInt i \<Rightarrow> Inr (''$'' @ fmt_comma_0f (of_int i))
      | JFloat q \<Rightarrow> Inr (''$'' @ fmt_comma_0f q)
      | _ \<Rightarrow> Inr (py_str repr price))"

subsection \<open>\<open>build_dealer_map\<close>\<close>

text \<open>The dict literal stored for one dealer.\<close>

definition dealer_entry :: "pydict \<Rightarrow> pydict" where
  "dealer_entry dealer =
     [(''name'', dict_get dealer ''Name'' (JStr [])),
      (''address1'', dict_get dealer ''Address1'' (JStr [])),
      (''city'', dict_get dealer ''City'' (JStr [])),
      (''state'', dict_get dealer ''State'' (JStr [])),
      (''postal'', dict_get dealer ''ZipCode'' (JStr [])),
      (''phone'', dict_get dealer ''Phone'' (JStr [])),
      (''lat'', dict_get dealer ''Latitude'' JNull),
      (''lon'', dict_get dealer ''Longitude'' JNull),
      (''retail_url'', dict_get dealer ''OnlineRetailingURL'' (JStr []))]"

text \<open>
  The loop over the dealers, with the dict under construction as accumulator. The
  first \<open>dealer.get\<close> raises \<open>AttributeError\<close> when the element is not a dict.
\<close>

fun dealer_loop ::
  "(json \<Rightarrow> string) \<Rightarrow> json list \<Rightarrow> (string \<rightharpoonup> pydict) \<Rightarrow> error + (string \<rightharpoonup> pydict)" where
  "dealer_loop repr [] dealer_map = Inr dealer_map"
| "dealer_loop repr (dealer # rest) dealer_map =
     (case dealer of
        JDict d \<Rightarrow>
          (let dealer_num = py_str repr (dict_get d ''DealerNumber'' JNull)
           in dealer_loop repr rest (dealer_map(dealer_num \<mapsto> dealer_entry d)))
      | _ \<Rightarrow> Inl AttributeError)"

definition build_dealer_map :: "(json \<Rightarrow> string) \<Rightarrow> json \<Rightarrow> error + (string \<rightharpoonup> pydict)" where
  "build_dealer_map repr data =
     (case get data ''dealers'' (JList []) of
        Inl e \<Rightarrow> Inl e
      | Inr ds \<Rightarrow>
          (case py_iter ds of
             Inl e \<Rightarrow> Inl e
           | Inr dealers \<Rightarrow> dealer_loop repr dealers Map.empty))"

subsection \<open>\<open>iter_inventory_rows\<close>\<close>

text \<open>The dict yielded for one VIN.\<close>

definition make_row ::
  "json \<Rightarrow> pydict \<Rightarrow> json \<Rightarrow> json \<Rightarrow> json \<Rightarrow> string \<Rightarrow> json \<Rightarrow> json \<Rightarrow> pydict" where
  "make_row dealer dealer_info trim inv_type color price interior_color vin =
     [(''dealer'', dealer),
      (''address1'', dict_get dealer_info ''address1'' (JStr [])),
      (''city'', dict_get dealer_info ''city'' (JStr [])),
      (''state'', dict_get dealer_info ''state'' (JStr [])),
      (''postal'', dict_get dealer_info ''postal'' (JStr [])),
      (''phone'', dict_get dealer_info ''phone'' (JStr [])),
      (''lat'', dict_get dealer_info ''lat'' (JStr [])),
      (''lon'', dict_get dealer_info ''lon'' (JStr [])),
      (''retail_url'', dict_get dealer_info ''retail_url'' (JStr [])),
      (''trim'', trim),
      (''inv_type'', inv_type),
      (''color'', color),
      (''vin'', vin),
      (''price'', JStr price),
      (''interior_color'', interior_color)]"

text \<open>
  The inner loop over the VIN entries of one item; \<open>mk\<close> builds the row of a VIN.
  \<open>vin_entry.get\<close> raises \<open>AttributeError\<close> when the entry is not a dict.
\<close>

fun vin_loop :: "(json \<Rightarrow> pydict) \<Rightarrow> json list \<Rightarrow> error + pydict list" where
  "vin_loop mk [] = Inr []"
| "vin_loop mk (vin_entry # rest) =
     (case vin_entry of
        JDict e \<Rightarrow>
          (let vin = dict_get e ''VIN'' JNull
           in if \<not> truthy vin then vin_loop mk rest
              else (case vin_loop mk rest of
                      Inl err \<Rightarrow> Inl err
                    | Inr rows \<Rightarrow> Inr (mk vin # rows)))
      | _ \<Rightarrow> Inl AttributeError)"

text \<open>The body of the outer loop: the rows of one inventory item.\<close>

definition item_rows ::
  "(json \<Rightarrow> string) \<Rightarrow> (string \<rightharpoonup> pydict) \<Rightarrow> json \<Rightarrow> error + pydict list" where
  "item_rows repr dealer_map item =
     (case item of
        JDict it \<Rightarrow>
          (let dealer_num = py_str repr (dict_get it ''DealerNumber'' JNull);
               dealer_info = (case dealer_map dealer_num of None \<Rightarrow> [] | Some info \<Rightarrow> info);
               dealer = dict_get dealer_info ''name'' (JStr ''Unknown dealer'');
               color = py_or (py_or (dict_get it ''ExteriorColor'' JNull)
                                    (dict_get it ''ModelBaseColor'' JNull))
                             (JStr ''(Unknown color)'')
           in case format_price repr (dict_get it ''ModelMSRP'' JNull) of
                Inl e \<Rightarrow> Inl e
              | Inr price \<Rightarrow>
                  (let trim = dict_get it ''ModelTrim'' (JStr []);
                       inv_type = dict_get it ''InventoryType'' (JStr []);
                       interior_color = dict_get it ''InteriorColor'' (JStr [])
                   in case py_iter (dict_get it ''VINs'' (JList [])) of
                        Inl e \<Rightarrow> Inl e
                      | Inr entries \<Rightarrow>
                          vin_loop (make_row dealer dealer_info trim inv_type color price
                                      interior_color) entries))
      | _ \<Rightarrow> Inl AttributeError)"

fun item_loop ::
  "(json \<Rightarrow> string) \<Rightarrow> (string \<rightharpoonup> pydict) \<Rightarrow> json list \<Rightarrow> error + pydict list" where
  "item_loop repr dealer_map [] = Inr []"
| "item_loop repr dealer_map (item # rest) =
     (case item_rows repr dealer_map item of
        Inl e \<Rightarrow> Inl e
      | Inr rows \<Rightarrow>
          (case item_loop repr dealer_map rest of
             Inl e \<Rightarrow> Inl e
           | Inr more \<Rightarrow> Inr (rows @ more)))"

text \<open>
  The generator consumed to its end: the list of the rows it yields, or the
  exception that interrupts it.
\<close>

definition iter_inventory_rows :: "(json \<Rightarrow> string) \<Rightarrow> json \<Rightarrow> error + pydict list" where
  "iter_inventory_rows repr data =
     (case build_dealer_map repr data of
        Inl e \<Rightarrow> Inl e
      | Inr dealer_map \<Rightarrow>
          (case get data ''inventory'' (JList []) of
             Inl e \<Rightarrow> Inl e
           | Inr inventory \<Rightarrow>
               (case py_iter inventory of
                  Inl e \<Rightarrow> Inl e
                | Inr items \<Rightarrow> item_loop repr dealer_map items)))"

section \<open>The shape of a parsed response\<close>

text \<open>
  The response object the flattener consumes: a dict whose \<open>dealers\<close>, when
  present, is a list of dicts and whose \<open>inventory\<close>, when present, is a list of
  dicts, each with a list of dicts as \<open>VINs\<close> when it has that key. The values of
  all other fields are arbitrary.
\<close>

fun is_dict :: "json \<Rightarrow> bool" where
  "is_dict (JDict kvs) = True"
| "is_dict v = False"

fun list_of_dicts :: "json \<Rightarrow> bool" where
  "list_of_dicts (JList xs) = list_all is_dict xs"
| "list_of_dicts v = False"

fun item_shape :: "json \<Rightarrow> bool" where
  "item_shape (JDict it) =
     (case map_of it ''VINs'' of None \<Rightarrow> True | Some v \<Rightarrow> list_of_dicts v)"
| "item_shape v = False"

fun list_of_items :: "json \<Rightarrow> bool" where
  "list_of_items (JList xs) = list_all item_shape xs"
| "list_of_items v = False"

fun dealers_shape :: "json \<Rightarrow> bool" where
  "dealers_shape (JDict d) =
     (case map_of d ''dealers'' of None \<Rightarrow> True | Some v \<Rightarrow> list_of_dicts v)"
| "dealers_shape v = False"

fun inventory_shape :: "json \<Rightarrow> bool" where
  "inventory_shape (JDict d) =
     (case map_of d ''inventory'' of None \<Rightarrow> True | Some v \<Rightarrow> list_of_items v)"
| "inventory_shape v = False"

definition response_shape :: "json \<Rightarrow> bool" where
  "response_shape data = (dealers_shape data \<and> inventory_shape data)"

text \<open>The dealers and the inventory items of a response, absent meaning none.\<close>

fun elements :: "json \<Rightarrow> json list" where
  "elements (JList xs) = xs"
| "elements v = []"

fun dealers_of :: "json \<Rightarrow> json list" where
  "dealers_of (JDict d) = elements (dict_get d ''dealers'' (JList []))"
| "dealers_of v = []"

fun inventory_of :: "json \<Rightarrow> json list" where
  "inventory_of (JDict d) = elements (dict_get d ''inventory'' (JList []))"
| "inventory_of v = []"

text \<open>A field of a dict, \<open>None\<close> when the value is not a dict or lacks the key.\<close>

fun field :: "json \<Rightarrow> string \<Rightarrow> json" where
  "field (JDict kvs) k = dict_get kvs k JNull"
| "field v k = JNull"

text \<open>The key under which a dealer is stored and an item is looked up.\<close>

definition join_key :: "(json \<Rightarrow> string) \<Rightarrow> json \<Rightarrow> string" where
  "join_key repr obj = py_str repr (field obj ''DealerNumber'')"

text \<open>
  The record of a dealer and, for a key, the last dealer of a list stored under it.
\<close>

fun record_of :: "json \<Rightarrow> pydict" where
  "record_of (JDict d) = dealer_entry d"
| "record_of v = []"

definition last_dealer_with :: "(json \<Rightarrow> string) \<Rightarrow> string \<Rightarrow> json list \<Rightarrow> json option" where
  "last_dealer_with repr k dealers = find (\<lambda>d. join_key repr d = k) (rev dealers)"

text \<open>The VIN entries of an item and the VINs that give a row.\<close>

definition vin_entries :: "json \<Rightarrow> json list" where
  "vin_entries item = elements (field item ''VINs'')"

definition kept_vins :: "json \<Rightarrow> json list" where
  "kept_vins item = filter truthy (map (\<lambda>e. field e ''VIN'') (vin_entries item))"

text \<open>A field of a dict with the default of \<open>.get(k, dflt)\<close>.\<close>

fun field_or :: "json \<Rightarrow> string \<Rightarrow> json \<Rightarrow> json" where
  "field_or (JDict kvs) k dflt = dict_get kvs k dflt"
| "field_or v k dflt = dflt"

text \<open>
  The dealer index of a response: under each key the record of the last dealer
  stored under it.
\<close>

definition dealer_index :: "(json \<Rightarrow> string) \<Rightarrow> json \<Rightarrow> (string \<rightharpoonup> pydict)" where
  "dealer_index repr data =
     (\<lambda>k. map_option record_of (last_dealer_with repr k (dealers_of data)))"

text \<open>What the lookup of an item in a dealer index gives: the record, or the empty dict.\<close>

definition dealer_info_of :: "(json \<Rightarrow> string) \<Rightarrow> (string \<rightharpoonup> pydict) \<Rightarrow> json \<Rightarrow> pydict" where
  "dealer_info_of repr dealer_map item =
     (case dealer_map (join_key repr item) of None \<Rightarrow> [] | Some info \<Rightarrow> info)"

text \<open>
  The colour of an item: its exterior colour, else its base colour, else the
  placeholder; a value counts when it is true in Python's sense (for a string: when
  it is not empty).
\<close>

definition resolved_color :: "json \<Rightarrow> json" where
  "resolved_color item =
     (if truthy (field item ''ExteriorColor'') then field item ''ExteriorColor''
      else if truthy (field item ''ModelBaseColor'') then field item ''ModelBaseColor''
      else JStr ''(Unknown color)'')"

text \<open>The row of one VIN of an item, given the dealer index and the formatted price.\<close>

definition row_of ::
  "(json \<Rightarrow> string) \<Rightarrow> (string \<rightharpoonup> pydict) \<Rightarrow> json \<Rightarrow> string \<Rightarrow> json \<Rightarrow> pydict" where
  "row_of repr dealer_map item price vin =
     make_row (dict_get (dealer_info_of repr dealer_map item) ''name'' (JStr ''Unknown dealer''))
       (dealer_info_of repr dealer_map item)
       (field_or item ''ModelTrim'' (JStr []))
       (field_or item ''InventoryType'' (JStr []))
       (resolved_color item)
       price
       (field_or item ''InteriorColor'' (JStr []))
       vin"

text \<open>The number of VIN entries of all the items of a response.\<close>

definition total_vin_entries :: "json \<Rightarrow> nat" where
  "total_vin_entries data = sum_list (map (\<lambda>item. length (vin_entries item)) (inventory_of data))"

section \<open>Example responses\<close>

text \<open>
  One dealer, number \<open>"100"\<close>, name \<open>"Acme"\<close>, and one item of that dealer
  with the VIN entries \<open>"X1"\<close> and \<open>""\<close>.
\<close>

definition acme :: json where
  "acme = JDict
     [(''dealers'', JList [JDict [(''DealerNumber'', JStr ''100''), (''Name'', JStr ''Acme'')]]),
      (''inventory'', JList
         [JDict [(''DealerNumber'', JStr ''100''),
                 (''VINs'', JList [JDict [(''VIN'', JStr ''X1'')], JDict [(''VIN'', JStr [])]])]])]"

text \<open>The same response with an MSRP on the item: the string of the single character
  U+00B2, superscript two.\<close>

definition acme_superscript_price :: json where
  "acme_superscript_price = JDict
     [(''dealers'', JList [JDict [(''DealerNumber'', JStr ''100''), (''Name'', JStr ''Acme'')]]),
      (''inventory'', JList
         [JDict [(''DealerNumber'', JStr ''100''),
                 (''ModelMSRP'', JStr [CHR 0xB2]),
                 (''VINs'', JList [JDict [(''VIN'', JStr ''X1'')], JDict [(''VIN'', JStr [])]])]])]"

text \<open>An item of dealer \<open>"7"\<close> in a response without that dealer.\<close>

definition unmatched :: json where
  "unmatched = JDict
     [(''dealers'', JList [JDict [(''DealerNumber'', JStr ''100''), (''Name'', JStr ''Acme'')]]),
      (''inventory'', JList
         [JDict [(''DealerNumber'', JStr ''7''),
                 (''ModelMSRP'', JStr ''45000''),
                 (''VINs'', JList [JDict [(''VIN'', JStr ''X1'')], JDict [(''VIN'', JStr ''X2'')]])]])]"

definition unmatched_superscript_price :: json where
  "unmatched_superscript_price = JDict
     [(''dealers'', JList [JDict [(''DealerNumber'', JStr ''100''), (''Name'', JStr ''Acme'')]]),
      (''inventory'', JList
         [JDict [(''DealerNumber'', JStr ''7''),
                 (''ModelMSRP'', JStr [CHR 0xB2]),
                 (''VINs'', JList [JDict [(''VIN'', JStr ''X1'')], JDict [(''VIN'', JStr ''X2'')]])]])]"

text \<open>
  Two items: one with an empty exterior colour and the base colour \<open>"Silver"\<close>,
  one with both colours empty.
\<close>

definition silver_item :: json where
  "silver_item = JDict [(''ExteriorColor'', JStr []), (''ModelBaseColor'', JStr ''Silver''),
                        (''VINs'', JList [JDict [(''VIN'', JStr ''X1'')]])]"

definition colorless_item :: json where
  "colorless_item = JDict [(''ExteriorColor'', JStr []), (''ModelBaseColor'', JStr []),
                           (''VINs'', JList [JDict [(''VIN'', JStr ''X2'')]])]"

definition two_colors :: json where
  "two_colors = JDict [(''inventory'', JList [silver_item, colorless_item])]"

text \<open>A dealer and an item that both lack a dealer number (the item has it null).\<close>

definition numberless_dealer :: json where
  "numberless_dealer = JDict [(''Name'', JStr ''Nowhere Honda''), (''City'', JStr ''Austin'')]"

definition numberless_item :: json where
  "numberless_item = JDict [(''DealerNumber'', JNull),
                            (''VINs'', JList [JDict [(''VIN'', JStr ''X1'')]])]"

definition numberless :: json where
  "numberless = JDict [(''dealers'', JList [numberless_dealer]),
                       (''inventory'', JList [numberless_item])]"

text \<open>A response with an empty inventory and no \<open>dealers\<close> key.\<close>

definition empty_inventory :: json where
  "empty_inventory = JDict [(''inventory'', JList [])]"


text \<open>Two dealers whose numbers, an integer and a string, give the same key.\<close>

definition two_dealers :: json where
  "two_dealers = JDict [(''dealers'', JList
     [JDict [(''DealerNumber'', JInt 100), (''Name'', JStr ''First'')],
      JDict [(''DealerNumber'', JStr ''100''), (''Name'', JStr ''Second'')]])]"

section \<open>Properties of the distance\<close>

lemma haversine_a_swap:
  "haversine_a lat1 lon1 lat2 lon2 = haversine_a lat2 lon2 lat1 lon1"
proof -
  have s: "(sin ((x - y) / 2))\<^sup>2 = (sin ((y - x) / 2))\<^sup>2" for x y :: real
  proof -
    have "(x - y) / 2 = - ((y - x) / 2)" by (simp add: field_simps)
    then have "sin ((x - y) / 2) = - sin ((y - x) / 2)"
      by (metis sin_minus)
    then show ?thesis by simp
  qed
  show ?thesis
    unfolding haversine_a_def Let_def
    by (simp add: s [of "radians lat2" "radians lat1"]
        s [of "radians lon2" "radians lon1"] mult.commute)
qed

lemma haversine_a_same: "haversine_a lat lon lat lon = 0"
  by (simp add: haversine_a_def Let_def)

text \<open>
  C6: the distance is symmetric under swapping the two points, as a result or as an
  error alike.
\<close>

theorem harvesine_symmetric:
  "harvesine lat1 lon1 lat2 lon2 = harvesine lat2 lon2 lat1 lon1"
  unfolding harvesine_def
  by (simp add: haversine_a_swap [of lat1 lon1 lat2 lon2])

text \<open>
  C7: the distance from a point to itself is exactly 0, and so the driving time from a
  point to itself is 0 for every positive speed.
\<close>

theorem harvesine_same_point_zero:
  "harvesine lat lon lat lon = Inr 0 \<and>
   (0 < speed \<longrightarrow> driving_time lat lon lat lon speed = Inr 0)"
  by (simp add: driving_time_def harvesine_def haversine_a_same py_sqrt_def atan2_def)

theorem harvesine_same_point_zero_witness:
  "harvesine 30 (-97) 30 (-97) = Inr 0 \<and>
   (0 < (60::real) \<and> driving_time 30 (-97) 30 (-97) 60 = Inr 0)"
  using harvesine_same_point_zero [of 30 "-97" 60] by simp


text \<open>
  In exact real arithmetic the two arguments of the square roots lie between 0 and 1,
  so no square root fails and the distance is not negative. This is a fact of the
  formula, not of the floating-point code: there the sum \<open>a\<close> is rounded and can
  come out above 1, as it does for the points \<open>(-82, -180)\<close> and \<open>(82, 0)\<close>, where
  \<open>a\<close> is \<open>1.0000000000000002\<close> and \<open>math.sqrt(1 - a)\<close> raises \<open>ValueError\<close>.
  Rounding is outside this model.
\<close>

lemma cos_product_bounds:
  fixes x y :: real
  shows "- (sin ((y - x) / 2))\<^sup>2 \<le> cos x * cos y"
    and "cos x * cos y \<le> 1 - (sin ((y - x) / 2))\<^sup>2"
proof -
  have "2 * ((y - x) / 2) = y - x" by simp
  then have d: "cos (y - x) = 1 - 2 * (sin ((y - x) / 2))\<^sup>2"
    using cos_double_sin [of "(y - x) / 2"] by (simp only:)
  have p: "2 * (cos x * cos y) = cos (y - x) + cos (y + x)"
    by (simp add: cos_diff cos_add)
  have "-1 \<le> cos (y + x)" "cos (y + x) \<le> 1" by simp_all
  with d p show "- (sin ((y - x) / 2))\<^sup>2 \<le> cos x * cos y"
    and "cos x * cos y \<le> 1 - (sin ((y - x) / 2))\<^sup>2"
    by linarith+
qed

lemma haversine_a_bounds:
  "0 \<le> haversine_a lat1 lon1 lat2 lon2" "haversine_a lat1 lon1 lat2 lon2 \<le> 1"
proof -
  define s where "s = (sin ((radians lat2 - radians lat1) / 2))\<^sup>2"
  define u where "u = (sin ((radians lon2 - radians lon1) / 2))\<^sup>2"
  define c where "c = cos (radians lat1) * cos (radians lat2)"
  have a: "haversine_a lat1 lon1 lat2 lon2 = s + c * u"
    by (simp add: haversine_a_def Let_def s_def u_def c_def)
  have s: "0 \<le> s" "s \<le> 1" and u: "0 \<le> u" "u \<le> 1"
    by (simp_all add: s_def u_def abs_square_le_1)
  have c: "- s \<le> c" "c \<le> 1 - s"
    unfolding s_def c_def by (rule cos_product_bounds)+
  from c(1) u(1) have "(- s) * u \<le> c * u" by (rule mult_right_mono)
  moreover from s(1) u(2) have "s * u \<le> s" by (simp add: mult_left_le)
  ultimately show "0 \<le> haversine_a lat1 lon1 lat2 lon2" by (simp add: a)
  from c(2) u(1) have "c * u \<le> (1 - s) * u" by (rule mult_right_mono)
  moreover from s(2) u(2) have "(1 - s) * u \<le> 1 - s" by (simp add: mult_left_le)
  ultimately show "haversine_a lat1 lon1 lat2 lon2 \<le> 1" by (simp add: a)
qed

lemma atan2_quadrant: "0 \<le> y \<Longrightarrow> 0 \<le> x \<Longrightarrow> 0 \<le> atan2 y x"
  by (auto simp: atan2_def zero_le_arctan_iff)

lemma harvesine_exact:
  "\<exists>distance. harvesine lat1 lon1 lat2 lon2 = Inr distance \<and> 0 \<le> distance"
proof -
  let ?a = "haversine_a lat1 lon1 lat2 lon2"
  let ?c = "atan2 (sqrt ?a) (sqrt (1 - ?a))"
  have "0 \<le> ?c"
    by (rule atan2_quadrant) (simp_all add: haversine_a_bounds)
  then have nonneg: "0 \<le> R * (2 * ?c)"
    by (simp add: R_def)
  have "harvesine lat1 lon1 lat2 lon2 = Inr (R * (2 * ?c))"
    using haversine_a_bounds [of lat1 lon1 lat2 lon2]
    by (simp add: harvesine_def py_sqrt_def Let_def)
  with nonneg show ?thesis by blast
qed


section \<open>Evaluation on concrete values\<close>

lemma digits10_small: "n < 10 \<Longrightarrow> digits10 n = [digit_char n]"
  by (simp add: digits10.simps)

lemma digits10_big: "\<not> n < 10 \<Longrightarrow> digits10 n = digits10 (n div 10) @ [digit_char (n mod 10)]"
  by (subst digits10.simps) simp

lemma group3_small: "length ds \<le> 3 \<Longrightarrow> group3 ds = ds"
  by (simp add: group3.simps)

lemma group3_big: "\<not> length ds \<le> 3 \<Longrightarrow>
  group3 ds = group3 (take (length ds - 3) ds) @ '','' @ drop (length ds - 3) ds"
  by (subst group3.simps) simp

text \<open>Rules that evaluate the formatting functions on numerals.\<close>

lemmas fmt_eval = digits10_small digits10_big group3_small group3_big digit_char_def
  fmt_comma_0f_def round_half_even_def Let_def

lemmas guard_eval = isdigit_def replace_dot_once_def char_isdigit_def ascii_digit_def
      py_float_def digits_val_def

section \<open>Properties of the dealer index\<close>

lemma find_app:
  "find P (xs @ ys) = (case find P xs of None \<Rightarrow> find P ys | Some x \<Rightarrow> Some x)"
  by (induction xs) auto

lemma dealer_loop_last:
  "list_all is_dict ds \<Longrightarrow>
   dealer_loop repr ds m =
     Inr (\<lambda>k. case last_dealer_with repr k ds of None \<Rightarrow> m k | Some d \<Rightarrow> Some (record_of d))"
proof (induction ds arbitrary: m)
  case Nil
  then show ?case by (simp add: last_dealer_with_def)
next
  case (Cons d ds)
  from Cons.prems obtain kvs where d: "d = JDict kvs" by (cases d) auto
  from Cons.prems have ds: "list_all is_dict ds" by simp
  show ?case
    by (simp add: d Cons.IH [OF ds] Let_def last_dealer_with_def find_app join_key_def fun_eq_iff
        split: option.splits)
qed

lemma build_dealer_map_shape:
  "dealers_shape data \<Longrightarrow>
   build_dealer_map repr data =
     Inr (\<lambda>k. map_option record_of (last_dealer_with repr k (dealers_of data)))"
proof -
  assume sh: "dealers_shape data"
  then obtain d where d: "data = JDict d" by (cases data) auto
  show ?thesis
  proof (cases "map_of d ''dealers''")
    case None
    then show ?thesis
      by (simp add: d build_dealer_map_def get_def dict_get_def last_dealer_with_def)
  next
    case (Some v)
    with sh d obtain ds where v: "v = JList ds" and ds: "list_all is_dict ds"
      by (cases v) auto
    show ?thesis
      by (simp add: d Some v build_dealer_map_def get_def dict_get_def dealer_loop_last [OF ds]
          fun_eq_iff split: option.splits)
  qed
qed

lemma last_dealer_with_None:
  "(last_dealer_with repr k ds = None) = (\<forall>x\<in>set ds. join_key repr x \<noteq> k)"
  by (auto simp: last_dealer_with_def find_None_iff)

lemma last_dealer_with_last:
  "\<forall>x\<in>set after. join_key repr x \<noteq> join_key repr d \<Longrightarrow>
   last_dealer_with repr (join_key repr d) (before @ d # after) = Some d"
proof -
  assume "\<forall>x\<in>set after. join_key repr x \<noteq> join_key repr d"
  then have "find (\<lambda>x. join_key repr x = join_key repr d) (rev after) = None"
    by (simp add: find_None_iff)
  then show ?thesis
    by (simp add: last_dealer_with_def find_app)
qed

text \<open>
  C8: on a response whose dealers are a list of dicts, \<open>build_dealer_map\<close> returns
  a mapping whose keys are the string-coerced dealer numbers, each bound to one
  record; a dealer after which no dealer with the same key follows is the one whose
  record the mapping holds under that key, whatever came before it (last write wins).
\<close>

theorem build_dealer_map_last_write_wins:
  assumes "dealers_shape data"
    and "dealers_of data = before @ d # after"
    and "\<forall>x\<in>set after. join_key repr x \<noteq> join_key repr d"
  shows "\<exists>m. build_dealer_map repr data = Inr m \<and>
             dom m = join_key repr ` set (dealers_of data) \<and>
             m (join_key repr d) = Some (record_of d)"
proof -
  let ?m = "\<lambda>k. map_option record_of (last_dealer_with repr k (dealers_of data))"
  have "build_dealer_map repr data = Inr ?m"
    using assms(1) by (rule build_dealer_map_shape)
  moreover have "dom ?m = join_key repr ` set (dealers_of data)"
    by (auto simp: dom_def last_dealer_with_None)
  moreover have "?m (join_key repr d) = Some (record_of d)"
    using assms(3) by (simp add: assms(2) last_dealer_with_last)
  ultimately show ?thesis by blast
qed

lemma join_key_evals:
  "join_key repr (JDict [(''DealerNumber'', JInt 100), (''Name'', JStr ''First'')]) = ''100''"
  "join_key repr (JDict [(''DealerNumber'', JStr ''100''), (''Name'', JStr ''Second'')]) = ''100''"
  by (simp_all add: join_key_def dict_get_def str_int_def digits10_small digits10_big digit_char_def)

theorem build_dealer_map_last_write_wins_witness:
  "dealers_shape two_dealers \<and>
   dealers_of two_dealers =
     [JDict [(''DealerNumber'', JInt 100), (''Name'', JStr ''First'')]] @
     JDict [(''DealerNumber'', JStr ''100''), (''Name'', JStr ''Second'')] # [] \<and>
   (\<exists>m. build_dealer_map (\<lambda>v. []) two_dealers = Inr m \<and>
        dom m = {''100''} \<and>
        m ''100'' = Some (dealer_entry [(''DealerNumber'', JStr ''100''), (''Name'', JStr ''Second'')]))"
proof -
  have sh: "dealers_shape two_dealers"
    by (simp add: two_dealers_def)
  have ds: "dealers_of two_dealers =
     [JDict [(''DealerNumber'', JInt 100), (''Name'', JStr ''First'')]] @
     JDict [(''DealerNumber'', JStr ''100''), (''Name'', JStr ''Second'')] # []"
    by (simp add: two_dealers_def dict_get_def)
  have nl: "\<forall>x\<in>set []. join_key (\<lambda>v. []) x
      \<noteq> join_key (\<lambda>v. []) (JDict [(''DealerNumber'', JStr ''100''), (''Name'', JStr ''Second'')])"
    by simp
  from build_dealer_map_last_write_wins [OF sh ds nl] sh ds show ?thesis
    by (simp add: join_key_evals)
qed



section \<open>The rows of a response of the expected shape\<close>

lemma vin_loop_dicts:
  "list_all is_dict es \<Longrightarrow>
   vin_loop mk es = Inr (map mk (filter truthy (map (\<lambda>e. field e ''VIN'') es)))"
proof (induction es)
  case Nil
  then show ?case by simp
next
  case (Cons e es)
  from Cons.prems obtain kvs where e: "e = JDict kvs" by (cases e) auto
  from Cons.prems have "list_all is_dict es" by simp
  then show ?case
    by (simp add: e Cons.IH Let_def)
qed

lemma item_rows_shape:
  assumes "item_shape item"
  shows "item_rows repr dm item =
     (case format_price repr (field item ''ModelMSRP'') of
        Inl e \<Rightarrow> Inl e
      | Inr price \<Rightarrow> Inr (map (row_of repr dm item price) (kept_vins item)))"
proof -
  from assms obtain it where it: "item = JDict it" by (cases item) auto
  have row: "make_row (dict_get (case dm (py_str repr (dict_get it ''DealerNumber'' JNull)) of
                                    None \<Rightarrow> [] | Some info \<Rightarrow> info) ''name'' (JStr ''Unknown dealer''))
                (case dm (py_str repr (dict_get it ''DealerNumber'' JNull)) of
                   None \<Rightarrow> [] | Some info \<Rightarrow> info)
                (dict_get it ''ModelTrim'' (JStr [])) (dict_get it ''InventoryType'' (JStr []))
                (py_or (py_or (dict_get it ''ExteriorColor'' JNull) (dict_get it ''ModelBaseColor'' JNull))
                   (JStr ''(Unknown color)''))
                price (dict_get it ''InteriorColor'' (JStr []))
             = row_of repr dm item price" for price
    by (simp add: row_of_def it dealer_info_of_def join_key_def resolved_color_def py_or_def fun_eq_iff)
  show ?thesis
  proof (cases "map_of it ''VINs''")
    case None
    then show ?thesis
      by (simp add: it item_rows_def Let_def row kept_vins_def vin_entries_def dict_get_def
          split: sum.splits)
  next
    case (Some v)
    with assms it obtain es where v: "v = JList es" and es: "list_all is_dict es"
      by (cases v) auto
    have vins: "dict_get it ''VINs'' (JList []) = JList es" "dict_get it ''VINs'' JNull = JList es"
      by (simp_all add: dict_get_def Some v)
    show ?thesis
      by (simp add: it item_rows_def Let_def row vins kept_vins_def vin_entries_def
          vin_loop_dicts [OF es] split: sum.splits)
  qed
qed

lemma item_loop_Inr:
  "(item_loop repr dm items = Inr rows) =
   (\<exists>groups. list_all2 (\<lambda>item rs. item_rows repr dm item = Inr rs) items groups \<and>
             rows = concat groups)"
proof (induction items arbitrary: rows)
  case Nil
  then show ?case by auto
next
  case (Cons item items)
  show ?case
  proof
    assume "item_loop repr dm (item # items) = Inr rows"
    then obtain rs more where rs: "item_rows repr dm item = Inr rs"
      and more: "item_loop repr dm items = Inr more" and rows: "rows = rs @ more"
      by (auto split: sum.splits)
    from more Cons.IH obtain groups where
      "list_all2 (\<lambda>item rs. item_rows repr dm item = Inr rs) items groups" "more = concat groups"
      by blast
    with rs rows have "list_all2 (\<lambda>item rs. item_rows repr dm item = Inr rs) (item # items) (rs # groups)
        \<and> rows = concat (rs # groups)" by simp
    then show "\<exists>groups. list_all2 (\<lambda>item rs. item_rows repr dm item = Inr rs) (item # items) groups \<and>
             rows = concat groups" by blast
  next
    assume "\<exists>groups. list_all2 (\<lambda>item rs. item_rows repr dm item = Inr rs) (item # items) groups \<and>
             rows = concat groups"
    then obtain groups where g: "list_all2 (\<lambda>item rs. item_rows repr dm item = Inr rs) (item # items) groups"
      and rows: "rows = concat groups" by blast
    from g obtain rs gs where gs: "groups = rs # gs" and rs: "item_rows repr dm item = Inr rs"
      and rest: "list_all2 (\<lambda>item rs. item_rows repr dm item = Inr rs) items gs"
      by (auto simp: list_all2_Cons1)
    from rest Cons.IH have "item_loop repr dm items = Inr (concat gs)" by blast
    with rs rows gs show "item_loop repr dm (item # items) = Inr rows" by simp
  qed
qed

lemma flatten_shape:
  assumes "response_shape data"
  shows "iter_inventory_rows repr data =
         item_loop repr (dealer_index repr data) (inventory_of data)"
proof -
  from assms have ds: "dealers_shape data" and inv: "inventory_shape data"
    by (simp_all add: response_shape_def)
  from ds obtain d where d: "data = JDict d" by (cases data) auto
  have bm: "build_dealer_map repr data = Inr (dealer_index repr data)"
    unfolding dealer_index_def using ds by (rule build_dealer_map_shape)
  show ?thesis
  proof (cases "map_of d ''inventory''")
    case None
    then show ?thesis
      by (simp add: iter_inventory_rows_def bm) (simp add: d get_def dict_get_def)
  next
    case (Some v)
    with inv d obtain items where v: "v = JList items" by (cases v) auto
    show ?thesis
      by (simp add: iter_inventory_rows_def bm) (simp add: d get_def dict_get_def Some v)
  qed
qed

lemma inventory_items_shape:
  "inventory_shape data \<Longrightarrow> list_all item_shape (inventory_of data)"
proof -
  assume inv: "inventory_shape data"
  then obtain d where d: "data = JDict d" by (cases data) auto
  show ?thesis
  proof (cases "map_of d ''inventory''")
    case None
    then show ?thesis by (simp add: d dict_get_def)
  next
    case (Some v)
    with inv d obtain items where "v = JList items" "list_all item_shape items" by (cases v) auto
    with Some show ?thesis by (simp add: d dict_get_def)
  qed
qed



lemmas row_eval = row_of_def make_row_def dealer_info_of_def join_key_def dict_get_def
  resolved_color_def kept_vins_def vin_entries_def dealer_index_def last_dealer_with_def
  dealer_entry_def

lemma item_rows_Inr:
  assumes "item_shape item" and "item_rows repr dm item = Inr rows"
  shows "\<exists>price. format_price repr (field item ''ModelMSRP'') = Inr price \<and>
                 rows = map (row_of repr dm item price) (kept_vins item)"
  using assms(2) unfolding item_rows_shape [OF assms(1)]
  by (auto split: sum.splits)

lemma row_of_fields:
  "dict_get (row_of repr dm item price vin) ''vin'' dflt = vin"
  "dict_get (row_of repr dm item price vin) ''color'' dflt = resolved_color item"
  "dict_get (row_of repr dm item price vin) ''price'' dflt = JStr price"
  "dict_get (row_of repr dm item price vin) ''dealer'' dflt =
     dict_get (dealer_info_of repr dm item) ''name'' (JStr ''Unknown dealer'')"
  by (simp_all add: row_of_def make_row_def dict_get_def)

lemma row_of_dealer_fields:
  "dict_get (row_of repr dm item price vin) ''address1'' dflt =
     dict_get (dealer_info_of repr dm item) ''address1'' (JStr [])"
  "dict_get (row_of repr dm item price vin) ''city'' dflt =
     dict_get (dealer_info_of repr dm item) ''city'' (JStr [])"
  "dict_get (row_of repr dm item price vin) ''state'' dflt =
     dict_get (dealer_info_of repr dm item) ''state'' (JStr [])"
  "dict_get (row_of repr dm item price vin) ''postal'' dflt =
     dict_get (dealer_info_of repr dm item) ''postal'' (JStr [])"
  "dict_get (row_of repr dm item price vin) ''phone'' dflt =
     dict_get (dealer_info_of repr dm item) ''phone'' (JStr [])"
  "dict_get (row_of repr dm item price vin) ''lat'' dflt =
     dict_get (dealer_info_of repr dm item) ''lat'' (JStr [])"
  "dict_get (row_of repr dm item price vin) ''lon'' dflt =
     dict_get (dealer_info_of repr dm item) ''lon'' (JStr [])"
  "dict_get (row_of repr dm item price vin) ''retail_url'' dflt =
     dict_get (dealer_info_of repr dm item) ''retail_url'' (JStr [])"
  by (simp_all add: row_of_def make_row_def dict_get_def)

lemma flatten_groups:
  assumes "response_shape data" and "iter_inventory_rows repr data = Inr rows"
  shows "\<exists>groups. rows = concat groups \<and>
           list_all2 (\<lambda>item rs. \<exists>price. format_price repr (field item ''ModelMSRP'') = Inr price \<and>
                        rs = map (row_of repr (dealer_index repr data) item price) (kept_vins item))
             (inventory_of data) groups"
proof -
  from assms have "item_loop repr (dealer_index repr data) (inventory_of data) = Inr rows"
    by (simp add: flatten_shape)
  then obtain groups where g: "list_all2 (\<lambda>item rs. item_rows repr (dealer_index repr data) item = Inr rs)
      (inventory_of data) groups" and rows: "rows = concat groups"
    unfolding item_loop_Inr by blast
  from assms(1) have sh: "list_all item_shape (inventory_of data)"
    by (simp add: response_shape_def inventory_items_shape)
  have "list_all2 (\<lambda>item rs. \<exists>price. format_price repr (field item ''ModelMSRP'') = Inr price \<and>
                        rs = map (row_of repr (dealer_index repr data) item price) (kept_vins item))
             (inventory_of data) groups"
    using g
  proof (rule list.rel_mono_strong)
    fix item rs
    assume "item \<in> set (inventory_of data)"
      and "item_rows repr (dealer_index repr data) item = Inr rs"
    with sh show "\<exists>price. format_price repr (field item ''ModelMSRP'') = Inr price \<and>
                        rs = map (row_of repr (dealer_index repr data) item price) (kept_vins item)"
      by (auto simp: list_all_iff intro: item_rows_Inr)
  qed
  with rows show ?thesis by blast
qed

text \<open>
  C3: when the flattener returns the rows of a response of the expected shape, the
  rows fall into one group per inventory item, in order; the rows of an item are those
  of its non-empty VINs, in order, and the colour of every one of them is the first
  true value among the item's \<open>ExteriorColor\<close>, its \<open>ModelBaseColor\<close> and the
  placeholder \<open>"(Unknown color)"\<close>, in this order. The example has an item with an
  empty exterior colour and the base colour \<open>"Silver"\<close>, whose row for \<open>"X1"\<close> has
  the colour \<open>"Silver"\<close>, and an item with both colours empty, whose row for
  \<open>"X2"\<close> has the placeholder.
\<close>

theorem color_fallback:
  assumes "response_shape data" and "iter_inventory_rows repr data = Inr rows"
  shows "\<exists>groups. rows = concat groups \<and>
           list_all2 (\<lambda>item rs.
               map (\<lambda>r. dict_get r ''vin'' JNull) rs = kept_vins item \<and>
               (\<forall>r\<in>set rs. dict_get r ''color'' JNull = resolved_color item))
             (inventory_of data) groups"
proof -
  from flatten_groups [OF assms] obtain groups where rows: "rows = concat groups"
    and g: "list_all2 (\<lambda>item rs. \<exists>price. format_price repr (field item ''ModelMSRP'') = Inr price \<and>
                        rs = map (row_of repr (dealer_index repr data) item price) (kept_vins item))
             (inventory_of data) groups"
    by blast
  from g have "list_all2 (\<lambda>item rs.
               map (\<lambda>r. dict_get r ''vin'' JNull) rs = kept_vins item \<and>
               (\<forall>r\<in>set rs. dict_get r ''color'' JNull = resolved_color item))
             (inventory_of data) groups"
    by (rule list_all2_mono) (auto simp: row_of_fields comp_def)
  with rows show ?thesis by blast
qed

lemma two_colors_shape: "response_shape two_colors"
  by (simp add: two_colors_def response_shape_def silver_item_def colorless_item_def)

lemma two_colors_rows:
  "iter_inventory_rows repr two_colors =
     Inr [row_of repr (dealer_index repr two_colors) silver_item ''N/A'' (JStr ''X1''),
          row_of repr (dealer_index repr two_colors) colorless_item ''N/A'' (JStr ''X2'')]"
proof -
  have items: "inventory_of two_colors = [silver_item, colorless_item]"
    by (simp add: two_colors_def dict_get_def)
  have sh: "item_shape silver_item" "item_shape colorless_item"
    by (simp_all add: silver_item_def colorless_item_def)
  have price: "format_price repr (field silver_item ''ModelMSRP'') = Inr ''N/A''"
    "format_price repr (field colorless_item ''ModelMSRP'') = Inr ''N/A''"
    by (simp_all add: silver_item_def colorless_item_def dict_get_def format_price_def)
  have vins: "kept_vins silver_item = [JStr ''X1'']" "kept_vins colorless_item = [JStr ''X2'']"
    by (simp_all add: silver_item_def colorless_item_def kept_vins_def vin_entries_def dict_get_def)
  show ?thesis
    by (simp add: flatten_shape [OF two_colors_shape] items item_rows_shape sh price vins)
qed

theorem color_fallback_witness:
  "response_shape two_colors \<and>
   (\<exists>r1 r2. iter_inventory_rows (\<lambda>v. []) two_colors = Inr [r1, r2] \<and>
      dict_get r1 ''vin'' JNull = JStr ''X1'' \<and>
      dict_get r1 ''color'' JNull = JStr ''Silver'' \<and>
      dict_get r2 ''vin'' JNull = JStr ''X2'' \<and>
      dict_get r2 ''color'' JNull = JStr ''(Unknown color)'')"
proof -
  let ?rows = "[row_of (\<lambda>v. []) (dealer_index (\<lambda>v. []) two_colors) silver_item ''N/A'' (JStr ''X1''),
          row_of (\<lambda>v. []) (dealer_index (\<lambda>v. []) two_colors) colorless_item ''N/A'' (JStr ''X2'')]"
  have items: "inventory_of two_colors = [silver_item, colorless_item]"
    by (simp add: two_colors_def dict_get_def)
  have cols: "resolved_color silver_item = JStr ''Silver''"
    "resolved_color colorless_item = JStr ''(Unknown color)''"
    by (simp_all add: resolved_color_def silver_item_def colorless_item_def dict_get_def)
  have vins: "kept_vins silver_item = [JStr ''X1'']" "kept_vins colorless_item = [JStr ''X2'']"
    by (simp_all add: silver_item_def colorless_item_def kept_vins_def vin_entries_def dict_get_def)
  have ev: "iter_inventory_rows (\<lambda>v. []) two_colors = Inr ?rows"
    by (rule two_colors_rows)
  from color_fallback [OF two_colors_shape ev]
  obtain groups where rows: "?rows = concat groups"
    and g: "list_all2 (\<lambda>item rs.
               map (\<lambda>r. dict_get r ''vin'' JNull) rs = kept_vins item \<and>
               (\<forall>r\<in>set rs. dict_get r ''color'' JNull = resolved_color item))
             [silver_item, colorless_item] groups"
    unfolding items by blast
  from g obtain g1 g2 where groups: "groups = [g1, g2]"
    and v1: "map (\<lambda>r. dict_get r ''vin'' JNull) g1 = [JStr ''X1'']"
    and c1: "\<forall>r\<in>set g1. dict_get r ''color'' JNull = JStr ''Silver''"
    and v2: "map (\<lambda>r. dict_get r ''vin'' JNull) g2 = [JStr ''X2'']"
    and c2: "\<forall>r\<in>set g2. dict_get r ''color'' JNull = JStr ''(Unknown color)''"
    by (auto simp: list_all2_Cons1 vins cols)
  from v1 obtain r1 where g1: "g1 = [r1]" and r1: "dict_get r1 ''vin'' JNull = JStr ''X1''"
    by auto
  from v2 obtain r2 where g2: "g2 = [r2]" and r2: "dict_get r2 ''vin'' JNull = JStr ''X2''"
    by auto
  from rows have "?rows = [r1, r2]" by (simp only: groups g1 g2 concat.simps append.simps)
  with ev have "iter_inventory_rows (\<lambda>v. []) two_colors = Inr [r1, r2]" by simp
  with r1 r2 c1 c2 g1 g2 two_colors_shape show ?thesis by auto
qed

text \<open>
  C9: on a response dict whose \<open>inventory\<close> key is absent or bound to an empty
  collection (and whose dealers, when present, are a list of dicts) the flattener
  returns no row and raises nothing; and an absent \<open>dealers\<close> key gives the empty
  dealer index, not an error.
\<close>

theorem empty_inventory_no_rows:
  "(dealers_shape (JDict d) \<and>
      (map_of d ''inventory'' = None \<or>
       (\<exists>v. map_of d ''inventory'' = Some v \<and> py_iter v = Inr []))
     \<longrightarrow> iter_inventory_rows repr (JDict d) = Inr []) \<and>
   (map_of d ''dealers'' = None \<longrightarrow> build_dealer_map repr (JDict d) = Inr Map.empty)"
proof (intro conjI impI)
  assume a: "dealers_shape (JDict d) \<and>
      (map_of d ''inventory'' = None \<or>
       (\<exists>v. map_of d ''inventory'' = Some v \<and> py_iter v = Inr []))"
  then have bm: "build_dealer_map repr (JDict d) =
      Inr (\<lambda>k. map_option record_of (last_dealer_with repr k (dealers_of (JDict d))))"
    by (simp add: build_dealer_map_shape)
  from a show "iter_inventory_rows repr (JDict d) = Inr []"
    by (auto simp: iter_inventory_rows_def bm get_def dict_get_def)
next
  assume "map_of d ''dealers'' = None"
  then show "build_dealer_map repr (JDict d) = Inr Map.empty"
    by (simp add: build_dealer_map_def get_def dict_get_def)
qed

theorem empty_inventory_no_rows_witness:
  "dealers_shape empty_inventory \<and>
   (\<exists>v. map_of [(''inventory'', JList [])] ''inventory'' = Some v \<and> py_iter v = Inr []) \<and>
   iter_inventory_rows (\<lambda>v. []) empty_inventory = Inr [] \<and>
   map_of [(''inventory'', JList [])] ''dealers'' = None \<and>
   build_dealer_map (\<lambda>v. []) empty_inventory = Inr Map.empty"
  using empty_inventory_no_rows [of "[(''inventory'', JList [])]" "\<lambda>v. []"]
  by (simp add: empty_inventory_def)



section \<open>The join key\<close>

lemma dealer_entry_fields:
  "dict_get (dealer_entry kvs) ''name'' dflt = dict_get kvs ''Name'' (JStr [])"
  "dict_get (dealer_entry kvs) ''address1'' dflt = dict_get kvs ''Address1'' (JStr [])"
  "dict_get (dealer_entry kvs) ''city'' dflt = dict_get kvs ''City'' (JStr [])"
  "dict_get (dealer_entry kvs) ''state'' dflt = dict_get kvs ''State'' (JStr [])"
  "dict_get (dealer_entry kvs) ''postal'' dflt = dict_get kvs ''ZipCode'' (JStr [])"
  "dict_get (dealer_entry kvs) ''phone'' dflt = dict_get kvs ''Phone'' (JStr [])"
  "dict_get (dealer_entry kvs) ''lat'' dflt = dict_get kvs ''Latitude'' JNull"
  "dict_get (dealer_entry kvs) ''lon'' dflt = dict_get kvs ''Longitude'' JNull"
  "dict_get (dealer_entry kvs) ''retail_url'' dflt = dict_get kvs ''OnlineRetailingURL'' (JStr [])"
  by (simp_all add: dealer_entry_def dict_get_def)

lemma dealers_are_dicts:
  "dealers_shape data \<Longrightarrow> list_all is_dict (dealers_of data)"
proof -
  assume sh: "dealers_shape data"
  then obtain d where d: "data = JDict d" by (cases data) auto
  show ?thesis
  proof (cases "map_of d ''dealers''")
    case None
    then show ?thesis by (simp add: d dict_get_def)
  next
    case (Some v)
    with sh d obtain ds where "v = JList ds" "list_all is_dict ds" by (cases v) auto
    with Some show ?thesis by (simp add: d dict_get_def)
  qed
qed

lemma find_Some_member: "find P xs = Some x \<Longrightarrow> x \<in> set xs \<and> P x"
  by (induction xs) (auto split: if_splits)

lemma last_dealer_with_Some:
  "last_dealer_with repr k ds = Some d \<Longrightarrow> d \<in> set ds \<and> join_key repr d = k"
  unfolding last_dealer_with_def by (drule find_Some_member) simp

lemma record_of_fields:
  "is_dict d \<Longrightarrow> dict_get (record_of d) ''name'' dflt = field_or d ''Name'' (JStr [])"
  "is_dict d \<Longrightarrow> dict_get (record_of d) ''address1'' dflt = field_or d ''Address1'' (JStr [])"
  "is_dict d \<Longrightarrow> dict_get (record_of d) ''city'' dflt = field_or d ''City'' (JStr [])"
  "is_dict d \<Longrightarrow> dict_get (record_of d) ''state'' dflt = field_or d ''State'' (JStr [])"
  "is_dict d \<Longrightarrow> dict_get (record_of d) ''postal'' dflt = field_or d ''ZipCode'' (JStr [])"
  by (cases d; simp add: dealer_entry_fields)+

text \<open>
  C10: both sides of the join use \<open>str\<close> of the \<open>DealerNumber\<close> value, so an
  item and a dealer whose number is absent or null both get the key \<open>"None"\<close>.
  When the dealers of a response include such a dealer, the index holds a dealer's
  record under \<open>"None"\<close>, the item is joined to that record and not to the empty
  default, and the rows of the item carry that dealer's name and address fields. The
  record is that of the last dealer stored under \<open>"None"\<close>: the given dealer when
  no dealer after it has that key.
\<close>

theorem null_dealer_number_joins:
  assumes "response_shape data"
    and "item \<in> set (inventory_of data)"
    and "field item ''DealerNumber'' = JNull"
    and "d \<in> set (dealers_of data)"
    and "field d ''DealerNumber'' = JNull"
  shows "join_key repr item = ''None'' \<and> join_key repr d = ''None'' \<and>
    (\<exists>m d'. build_dealer_map repr data = Inr m \<and>
        d' \<in> set (dealers_of data) \<and> join_key repr d' = ''None'' \<and>
        m (join_key repr item) = Some (record_of d') \<and>
        (\<forall>before after. dealers_of data = before @ d # after \<and>
             (\<forall>x\<in>set after. join_key repr x \<noteq> ''None'') \<longrightarrow> d' = d) \<and>
        (\<forall>rows. item_rows repr m item = Inr rows \<longrightarrow>
           (\<forall>r\<in>set rows.
              dict_get r ''dealer'' JNull = field_or d' ''Name'' (JStr []) \<and>
              dict_get r ''address1'' JNull = field_or d' ''Address1'' (JStr []) \<and>
              dict_get r ''city'' JNull = field_or d' ''City'' (JStr []) \<and>
              dict_get r ''state'' JNull = field_or d' ''State'' (JStr []) \<and>
              dict_get r ''postal'' JNull = field_or d' ''ZipCode'' (JStr []))))"
proof -
  let ?m = "dealer_index repr data"
  from assms(1) have ds: "dealers_shape data" and inv: "inventory_shape data"
    by (simp_all add: response_shape_def)
  have ki: "join_key repr item = ''None''" and kd: "join_key repr d = ''None''"
    using assms(3,5) by (simp_all add: join_key_def)
  have bm: "build_dealer_map repr data = Inr ?m"
    unfolding dealer_index_def using ds by (rule build_dealer_map_shape)
  from assms(4) kd have "last_dealer_with repr ''None'' (dealers_of data) \<noteq> None"
    by (auto simp: last_dealer_with_None)
  then obtain d' where d': "last_dealer_with repr ''None'' (dealers_of data) = Some d'"
    by auto
  then have mem: "d' \<in> set (dealers_of data)" and kd': "join_key repr d' = ''None''"
    by (auto dest: last_dealer_with_Some)
  from mem dealers_are_dicts [OF ds] have dict: "is_dict d'"
    by (simp add: list_all_iff)
  have look: "?m (join_key repr item) = Some (record_of d')"
    by (simp add: dealer_index_def ki d')
  have last: "\<forall>before after. dealers_of data = before @ d # after \<and>
             (\<forall>x\<in>set after. join_key repr x \<noteq> ''None'') \<longrightarrow> d' = d"
  proof (intro allI impI)
    fix before after
    assume a: "dealers_of data = before @ d # after \<and>
             (\<forall>x\<in>set after. join_key repr x \<noteq> ''None'')"
    then have "last_dealer_with repr (join_key repr d) (before @ d # after) = Some d"
      by (intro last_dealer_with_last) (simp add: kd)
    with a d' show "d' = d" by (simp add: kd)
  qed
  from assms(2) inventory_items_shape [OF inv] have ish: "item_shape item"
    by (simp add: list_all_iff)
  have info: "dealer_info_of repr ?m item = record_of d'"
    by (simp add: dealer_info_of_def look)
  have rows: "\<forall>rows. item_rows repr ?m item = Inr rows \<longrightarrow>
           (\<forall>r\<in>set rows.
              dict_get r ''dealer'' JNull = field_or d' ''Name'' (JStr []) \<and>
              dict_get r ''address1'' JNull = field_or d' ''Address1'' (JStr []) \<and>
              dict_get r ''city'' JNull = field_or d' ''City'' (JStr []) \<and>
              dict_get r ''state'' JNull = field_or d' ''State'' (JStr []) \<and>
              dict_get r ''postal'' JNull = field_or d' ''ZipCode'' (JStr []))"
  proof (intro allI impI ballI)
    fix rows r
    assume "item_rows repr ?m item = Inr rows" and r: "r \<in> set rows"
    with ish obtain price where "rows = map (row_of repr ?m item price) (kept_vins item)"
      by (blast dest: item_rows_Inr)
    with r obtain vin where "r = row_of repr ?m item price vin" by auto
    then show "dict_get r ''dealer'' JNull = field_or d' ''Name'' (JStr []) \<and>
              dict_get r ''address1'' JNull = field_or d' ''Address1'' (JStr []) \<and>
              dict_get r ''city'' JNull = field_or d' ''City'' (JStr []) \<and>
              dict_get r ''state'' JNull = field_or d' ''State'' (JStr []) \<and>
              dict_get r ''postal'' JNull = field_or d' ''ZipCode'' (JStr [])"
      by (simp add: row_of_fields row_of_dealer_fields info record_of_fields [OF dict])
  qed
  from ki kd bm mem kd' look last rows show ?thesis by blast
qed

lemma numberless_facts:
  "response_shape numberless"
  "inventory_of numberless = [numberless_item]"
  "dealers_of numberless = [numberless_dealer]"
  "field numberless_item ''DealerNumber'' = JNull"
  "field numberless_dealer ''DealerNumber'' = JNull"
  by (simp_all add: numberless_def numberless_item_def numberless_dealer_def response_shape_def
      dict_get_def)

theorem null_dealer_number_joins_witness:
  "response_shape numberless \<and>
   numberless_item \<in> set (inventory_of numberless) \<and>
   field numberless_item ''DealerNumber'' = JNull \<and>
   numberless_dealer \<in> set (dealers_of numberless) \<and>
   field numberless_dealer ''DealerNumber'' = JNull \<and>
   join_key (\<lambda>v. []) numberless_item = ''None'' \<and>
   (\<exists>m. build_dealer_map (\<lambda>v. []) numberless = Inr m \<and>
        m ''None'' = Some (record_of numberless_dealer) \<and>
        (\<forall>rows. item_rows (\<lambda>v. []) m numberless_item = Inr rows \<longrightarrow>
           (\<forall>r\<in>set rows.
              dict_get r ''dealer'' JNull = JStr ''Nowhere Honda'' \<and>
              dict_get r ''city'' JNull = JStr ''Austin''))) \<and>
   (\<exists>r. iter_inventory_rows (\<lambda>v. []) numberless = Inr [r] \<and>
        dict_get r ''dealer'' JNull = JStr ''Nowhere Honda'')"
proof -
  have h2: "numberless_item \<in> set (inventory_of numberless)"
    and h4: "numberless_dealer \<in> set (dealers_of numberless)"
    by (simp_all add: numberless_facts)
  have flds: "field_or numberless_dealer ''Name'' (JStr []) = JStr ''Nowhere Honda''"
    "field_or numberless_dealer ''City'' (JStr []) = JStr ''Austin''"
    by (simp_all add: numberless_dealer_def dict_get_def)
  from null_dealer_number_joins [OF numberless_facts(1) h2 numberless_facts(4) h4
      numberless_facts(5), of "\<lambda>v. []"]
  obtain m d' where key: "join_key (\<lambda>v. []) numberless_item = ''None''"
    and bm: "build_dealer_map (\<lambda>v. []) numberless = Inr m"
    and mem: "d' \<in> set (dealers_of numberless)"
    and look: "m (join_key (\<lambda>v. []) numberless_item) = Some (record_of d')"
    and rows: "\<forall>rows. item_rows (\<lambda>v. []) m numberless_item = Inr rows \<longrightarrow>
           (\<forall>r\<in>set rows.
              dict_get r ''dealer'' JNull = field_or d' ''Name'' (JStr []) \<and>
              dict_get r ''address1'' JNull = field_or d' ''Address1'' (JStr []) \<and>
              dict_get r ''city'' JNull = field_or d' ''City'' (JStr []) \<and>
              dict_get r ''state'' JNull = field_or d' ''State'' (JStr []) \<and>
              dict_get r ''postal'' JNull = field_or d' ''ZipCode'' (JStr []))"
    by blast
  from mem have d': "d' = numberless_dealer" by (simp add: numberless_facts)
  have ish: "item_shape numberless_item"
    by (simp add: numberless_item_def)
  have ir: "item_rows (\<lambda>v. []) m numberless_item =
      Inr [row_of (\<lambda>v. []) m numberless_item ''N/A'' (JStr ''X1'')]"
    by (simp add: item_rows_shape [OF ish])
       (simp add: numberless_item_def dict_get_def format_price_def kept_vins_def vin_entries_def)
  have it: "iter_inventory_rows (\<lambda>v. []) numberless =
      Inr [row_of (\<lambda>v. []) m numberless_item ''N/A'' (JStr ''X1'')]"
    using bm by (simp add: iter_inventory_rows_def ir)
      (simp add: numberless_def get_def dict_get_def ir)
  from rows ir have "dict_get (row_of (\<lambda>v. []) m numberless_item ''N/A'' (JStr ''X1'')) ''dealer'' JNull
      = JStr ''Nowhere Honda''"
    by (simp add: d' flds)
  with it have last: "\<exists>r. iter_inventory_rows (\<lambda>v. []) numberless = Inr [r] \<and>
        dict_get r ''dealer'' JNull = JStr ''Nowhere Honda''" by simp
  from rows have rows': "\<forall>rows. item_rows (\<lambda>v. []) m numberless_item = Inr rows \<longrightarrow>
           (\<forall>r\<in>set rows.
              dict_get r ''dealer'' JNull = JStr ''Nowhere Honda'' \<and>
              dict_get r ''city'' JNull = JStr ''Austin'')"
    by (simp add: d' flds)
  from bm look rows' have ex: "\<exists>m. build_dealer_map (\<lambda>v. []) numberless = Inr m \<and>
        m ''None'' = Some (record_of numberless_dealer) \<and>
        (\<forall>rows. item_rows (\<lambda>v. []) m numberless_item = Inr rows \<longrightarrow>
           (\<forall>r\<in>set rows.
              dict_get r ''dealer'' JNull = JStr ''Nowhere Honda'' \<and>
              dict_get r ''city'' JNull = JStr ''Austin''))"
    unfolding key d' by blast
  from numberless_facts(1) h2 numberless_facts(4) h4 numberless_facts(5) key ex last
  show ?thesis by blast
qed



section \<open>Properties of \<open>format_price\<close>\<close>

text \<open>
  The cases of \<open>format_price\<close>: \<open>None\<close> gives \<open>"N/A"\<close>, a number is rendered
  by the format \<open>,.0f\<close> after a dollar sign, a string that fails the guard and a
  list or dict are returned as their \<open>str\<close>.
\<close>

lemma format_price_simple:
  "format_price repr JNull = Inr ''N/A''"
  "format_price repr (JInt i) = Inr (''$'' @ fmt_comma_0f (of_int i))"
  "format_price repr (JFloat x) = Inr (''$'' @ fmt_comma_0f x)"
  "format_price repr (JBool b) = Inr (''$'' @ fmt_comma_0f (if b then 1 else 0))"
  "format_price repr (JList xs) = Inr (py_str repr (JList xs))"
  "format_price repr (JDict kvs) = Inr (py_str repr (JDict kvs))"
  "\<not> isdigit (replace_dot_once s) \<Longrightarrow> format_price repr (JStr s) = Inr s"
  by (simp_all add: format_price_def)

lemma format_price_examples:
  "format_price repr (JStr ''45000'') = Inr ''$45,000''"
  "format_price repr (JFloat (450004 / 10)) = Inr ''$45,000''"
  "format_price repr (JStr ''N/A'') = Inr ''N/A''"
  "format_price repr (JInt 45000) = Inr ''$45,000''"
  "format_price repr (JFloat (5 / 2)) = Inr ''$2''"
  "format_price repr (JFloat (7 / 2)) = Inr ''$4''"
  by (simp_all add: format_price_def guard_eval fmt_eval)

text \<open>
  A string that passes the guard has at most one point and at least one
  \<open>isdigit\<close> character; \<open>float\<close> raises on it exactly when one of its digits
  is not a decimal digit, and that is the only way \<open>format_price\<close> raises.
\<close>

lemma not_isdigit_dot: "\<not> char_isdigit (CHR ''.'')"
  by (simp add: char_isdigit_def ascii_digit_def)

lemma count_remove1: "count_list (remove1 x xs) x = count_list xs x - 1"
  by (induction xs) auto

lemma count_zero: "x \<notin> set xs \<Longrightarrow> count_list xs x = 0"
  by (induction xs) auto

lemma guarded_string:
  assumes "isdigit (replace_dot_once s)"
  shows "count_list s (CHR ''.'') \<le> 1"
    and "\<forall>c\<in>set s. c = CHR ''.'' \<or> char_isdigit c"
    and "\<exists>c\<in>set s. char_isdigit c"
proof -
  from assms have ne: "remove1 (CHR ''.'') s \<noteq> []"
    and all: "\<forall>c\<in>set (remove1 (CHR ''.'') s). char_isdigit c"
    by (simp_all add: isdigit_def replace_dot_once_def list_all_iff)
  from all not_isdigit_dot have "CHR ''.'' \<notin> set (remove1 (CHR ''.'') s)" by blast
  then have "count_list (remove1 (CHR ''.'') s) (CHR ''.'') = 0" by (rule count_zero)
  then show "count_list s (CHR ''.'') \<le> 1" by (simp add: count_remove1)
  show "\<forall>c\<in>set s. c = CHR ''.'' \<or> char_isdigit c"
  proof
    fix c assume "c \<in> set s"
    show "c = CHR ''.'' \<or> char_isdigit c"
    proof (cases "c = CHR ''.''")
      case True then show ?thesis by simp
    next
      case False
      with \<open>c \<in> set s\<close> have "c \<in> set (remove1 (CHR ''.'') s)" by simp
      with all show ?thesis by blast
    qed
  qed
  from ne obtain c where c: "c \<in> set (remove1 (CHR ''.'') s)" by (cases "remove1 (CHR ''.'') s") auto
  then have "c \<in> set s" using set_remove1_subset [of "CHR ''.''" s] by blast
  with c all show "\<exists>c\<in>set s. char_isdigit c" by blast
qed

lemma py_float_guarded:
  assumes "isdigit (replace_dot_once s)"
  shows "py_float s =
     (if \<exists>c\<in>set s. char_isdigit c \<and> \<not> ascii_digit c then Inl ValueError
      else Inr (of_nat (digits_val (replace_dot_once s))
                / 10 ^ (length (dropWhile (\<lambda>c. c \<noteq> CHR ''.'') s) - 1)))"
proof (cases "\<exists>c\<in>set s. char_isdigit c \<and> \<not> ascii_digit c")
  case True
  then obtain c where "c \<in> set s" "char_isdigit c" "\<not> ascii_digit c" by blast
  with not_isdigit_dot have "\<not> list_all (\<lambda>c. ascii_digit c \<or> c = CHR ''.'') s"
    by (auto simp: list_all_iff)
  with True show ?thesis by (simp add: py_float_def)
next
  case False
  with guarded_string(2) [OF assms] have a: "list_all (\<lambda>c. ascii_digit c \<or> c = CHR ''.'') s"
    by (auto simp: list_all_iff)
  from guarded_string(3) [OF assms] False have b: "list_ex ascii_digit s"
    by (auto simp: list_ex_iff)
  from a b guarded_string(1) [OF assms] False show ?thesis
    by (simp add: py_float_def)
qed

lemma format_price_raises_iff:
  "(format_price repr v = Inl e) =
   (\<exists>s. v = JStr s \<and> isdigit (replace_dot_once s) \<and>
        (\<exists>c\<in>set s. char_isdigit c \<and> \<not> ascii_digit c) \<and> e = ValueError)"
proof (cases v)
  case (JStr s)
  show ?thesis
  proof (cases "isdigit (replace_dot_once s)")
    case True
    then show ?thesis
      by (auto simp: JStr format_price_def py_float_guarded)
  next
    case False
    then show ?thesis by (simp add: JStr format_price_def)
  qed
qed (simp_all add: format_price_def)

text \<open>
  C2: \<open>format_price\<close> is to return a string for every value: \<open>"N/A"\<close> for
  \<open>None\<close>, the dollar rendering for a numeric-looking string and for a number, and
  the unchanged string representation for anything else. On the string whose only
  character is U+00B2, superscript two, it returns nothing: the string passes the guard
  \<open>isdigit\<close>, \<open>float\<close> rejects it and \<open>ValueError\<close> is raised.
\<close>

theorem format_price_superscript_raises:
  "isdigit (replace_dot_once [CHR 0xB2]) \<and> format_price repr (JStr [CHR 0xB2]) = Inl ValueError"
  by (simp add: format_price_def guard_eval)



section \<open>The rows and their VINs\<close>

text \<open>
  On a response of the expected shape the flattener returns its rows exactly when the
  price of every item can be formatted; the dealers play no part in it.
\<close>

lemma item_loop_returns:
  "(\<exists>rows. item_loop repr dm items = Inr rows) =
   (\<forall>item\<in>set items. \<exists>rs. item_rows repr dm item = Inr rs)"
proof (induction items)
  case Nil
  then show ?case by simp
next
  case (Cons item items)
  show ?case
  proof (cases "item_rows repr dm item")
    case (Inl e)
    then show ?thesis by simp
  next
    case (Inr rs)
    show ?thesis
    proof (cases "item_loop repr dm items")
      case (Inl e)
      with Cons.IH have "\<not> (\<forall>item\<in>set items. \<exists>rs. item_rows repr dm item = Inr rs)" by simp
      with Inl Inr show ?thesis by simp
    next
      case (Inr more)
      with Cons.IH have "\<forall>item\<in>set items. \<exists>rs. item_rows repr dm item = Inr rs" by simp
      with Inr \<open>item_rows repr dm item = Inr rs\<close> show ?thesis by simp
    qed
  qed
qed

lemma flatten_returns_iff:
  assumes "response_shape data"
  shows "(\<exists>rows. iter_inventory_rows repr data = Inr rows) =
         (\<forall>item\<in>set (inventory_of data).
            \<exists>price. format_price repr (field item ''ModelMSRP'') = Inr price)"
proof -
  from assms have sh: "\<forall>item\<in>set (inventory_of data). item_shape item"
    using inventory_items_shape [of data] by (simp add: response_shape_def list_all_iff)
  have "(\<exists>rs. item_rows repr (dealer_index repr data) item = Inr rs) =
        (\<exists>price. format_price repr (field item ''ModelMSRP'') = Inr price)"
    if "item \<in> set (inventory_of data)" for item
    using sh that by (auto simp: item_rows_shape split: sum.splits)
  then show ?thesis
    by (simp add: flatten_shape [OF assms] item_loop_returns)
qed

text \<open>
  When the flattener returns, the VINs of its rows are the true VINs of the VIN
  entries, item by item and in order: one row for each entry with a non-empty VIN, none
  for the others, and so no more rows than entries.
\<close>

lemma kept_vins_length: "length (kept_vins item) \<le> length (vin_entries item)"
  unfolding kept_vins_def by (rule order_trans [OF length_filter_le]) simp

lemma flatten_vins:
  assumes "response_shape data" and "iter_inventory_rows repr data = Inr rows"
  shows "map (\<lambda>r. dict_get r ''vin'' JNull) rows = concat (map kept_vins (inventory_of data))"
    and "\<forall>r\<in>set rows. truthy (dict_get r ''vin'' JNull)"
    and "length rows \<le> total_vin_entries data"
proof -
  from flatten_groups [OF assms] obtain groups where rows: "rows = concat groups"
    and g: "list_all2 (\<lambda>item rs. \<exists>price. format_price repr (field item ''ModelMSRP'') = Inr price \<and>
                        rs = map (row_of repr (dealer_index repr data) item price) (kept_vins item))
             (inventory_of data) groups"
    by blast
  from g have "list_all2 (\<lambda>item rs. map (\<lambda>r. dict_get r ''vin'' JNull) rs = kept_vins item)
      (inventory_of data) groups"
    by (rule list_all2_mono) (auto simp: row_of_fields comp_def)
  then have eq: "map (map (\<lambda>r. dict_get r ''vin'' JNull)) groups = map kept_vins (inventory_of data)"
    by (induction rule: list_all2_induct) simp_all
  show v: "map (\<lambda>r. dict_get r ''vin'' JNull) rows = concat (map kept_vins (inventory_of data))"
    by (simp add: rows map_concat eq)
  have "\<forall>v\<in>set (concat (map kept_vins (inventory_of data))). truthy v"
    by (auto simp: kept_vins_def)
  with v show "\<forall>r\<in>set rows. truthy (dict_get r ''vin'' JNull)"
    by (metis (no_types, lifting) image_eqI list.set_map)
  have "length rows = length (concat (map kept_vins (inventory_of data)))"
    using v by (metis length_map)
  also have "\<dots> = sum_list (map (\<lambda>item. length (kept_vins item)) (inventory_of data))"
    by (simp add: length_concat comp_def)
  also have "\<dots> \<le> total_vin_entries data"
    unfolding total_vin_entries_def by (rule sum_list_mono) (rule kept_vins_length)
  finally show "length rows \<le> total_vin_entries data" .
qed

text \<open>
  When the flattener returns, an item whose key is not in the dealer index has one row
  for each of its non-empty VINs, with the name \<open>"Unknown dealer"\<close> and every other
  dealer field empty.
\<close>

lemma unmatched_dealer_rows:
  assumes "response_shape data" and "iter_inventory_rows repr data = Inr rows"
  shows "\<exists>groups. rows = concat groups \<and>
           list_all2 (\<lambda>item rs.
               map (\<lambda>r. dict_get r ''vin'' JNull) rs = kept_vins item \<and>
               (dealer_index repr data (join_key repr item) = None \<longrightarrow>
                  (\<forall>r\<in>set rs.
                     dict_get r ''dealer'' JNull = JStr ''Unknown dealer'' \<and>
                     dict_get r ''address1'' JNull = JStr [] \<and>
                     dict_get r ''city'' JNull = JStr [] \<and>
                     dict_get r ''state'' JNull = JStr [] \<and>
                     dict_get r ''postal'' JNull = JStr [] \<and>
                     dict_get r ''phone'' JNull = JStr [] \<and>
                     dict_get r ''lat'' JNull = JStr [] \<and>
                     dict_get r ''lon'' JNull = JStr [] \<and>
                     dict_get r ''retail_url'' JNull = JStr [])))
             (inventory_of data) groups"
proof -
  from flatten_groups [OF assms] obtain groups where rows: "rows = concat groups"
    and g: "list_all2 (\<lambda>item rs. \<exists>price. format_price repr (field item ''ModelMSRP'') = Inr price \<and>
                        rs = map (row_of repr (dealer_index repr data) item price) (kept_vins item))
             (inventory_of data) groups"
    by blast
  have empty: "dict_get [] k dflt = dflt" for k dflt by (simp add: dict_get_def)
  from g have "list_all2 (\<lambda>item rs.
               map (\<lambda>r. dict_get r ''vin'' JNull) rs = kept_vins item \<and>
               (dealer_index repr data (join_key repr item) = None \<longrightarrow>
                  (\<forall>r\<in>set rs.
                     dict_get r ''dealer'' JNull = JStr ''Unknown dealer'' \<and>
                     dict_get r ''address1'' JNull = JStr [] \<and>
                     dict_get r ''city'' JNull = JStr [] \<and>
                     dict_get r ''state'' JNull = JStr [] \<and>
                     dict_get r ''postal'' JNull = JStr [] \<and>
                     dict_get r ''phone'' JNull = JStr [] \<and>
                     dict_get r ''lat'' JNull = JStr [] \<and>
                     dict_get r ''lon'' JNull = JStr [] \<and>
                     dict_get r ''retail_url'' JNull = JStr [])))
             (inventory_of data) groups"
    by (rule list_all2_mono)
       (auto simp: row_of_fields row_of_dealer_fields comp_def dealer_info_of_def empty)
  with rows show ?thesis by blast
qed

lemma acme_shape: "response_shape acme"
  by (simp add: acme_def response_shape_def)

lemma acme_rows:
  "\<exists>row. iter_inventory_rows repr acme = Inr [row] \<and>
         dict_get row ''vin'' JNull = JStr ''X1'' \<and>
         dict_get row ''dealer'' JNull = JStr ''Acme''"
proof -
  have "iter_inventory_rows repr acme =
     Inr [row_of repr (dealer_index repr acme)
            (JDict [(''DealerNumber'', JStr ''100''),
                    (''VINs'', JList [JDict [(''VIN'', JStr ''X1'')], JDict [(''VIN'', JStr [])]])])
            ''N/A'' (JStr ''X1'')]"
    by (simp add: flatten_shape [OF acme_shape])
       (simp add: acme_def dict_get_def item_rows_shape format_price_def kept_vins_def
          vin_entries_def)
  then show ?thesis
    by (simp add: row_of_fields) (simp add: acme_def row_eval)
qed

lemma unmatched_rows:
  "dealer_index repr unmatched ''7'' = None \<and>
   (\<exists>r1 r2. iter_inventory_rows repr unmatched = Inr [r1, r2] \<and>
      dict_get r1 ''vin'' JNull = JStr ''X1'' \<and> dict_get r2 ''vin'' JNull = JStr ''X2'' \<and>
      dict_get r1 ''dealer'' JNull = JStr ''Unknown dealer'' \<and>
      dict_get r2 ''dealer'' JNull = JStr ''Unknown dealer'' \<and>
      dict_get r1 ''city'' JNull = JStr [] \<and> dict_get r1 ''lat'' JNull = JStr [] \<and>
      dict_get r1 ''price'' JNull = JStr ''$45,000'')"
proof -
  have sh: "response_shape unmatched"
    by (simp add: unmatched_def response_shape_def)
  have idx: "dealer_index repr unmatched ''7'' = None"
    by (simp add: unmatched_def row_eval)
  have "iter_inventory_rows repr unmatched =
     Inr (map (row_of repr (dealer_index repr unmatched)
            (JDict [(''DealerNumber'', JStr ''7''), (''ModelMSRP'', JStr ''45000''),
                    (''VINs'', JList [JDict [(''VIN'', JStr ''X1'')], JDict [(''VIN'', JStr ''X2'')]])])
            ''$45,000'') [JStr ''X1'', JStr ''X2''])"
    by (simp add: flatten_shape [OF sh])
       (simp add: unmatched_def dict_get_def item_rows_shape format_price_examples kept_vins_def
          vin_entries_def)
  with idx show ?thesis
    by (simp add: row_of_fields row_of_dealer_fields dealer_info_of_def join_key_def)
       (simp add: dict_get_def)
qed

text \<open>
  C1: an item whose dealer number is not a key of the dealer index is to raise no
  exception and to give one row for each of its non-empty VINs, with the dealer fields
  at their defaults. The response below has one item, of dealer \<open>"7"\<close>, which the
  index lacks, with two non-empty VINs and the MSRP made of the character U+00B2: the
  flattener raises \<open>ValueError\<close> and gives no row.
\<close>

theorem unmatched_item_superscript_price_raises:
  "dealer_index repr unmatched_superscript_price ''7'' = None \<and>
   iter_inventory_rows repr unmatched_superscript_price = Inl ValueError"
proof -
  have sh: "response_shape unmatched_superscript_price"
    by (simp add: unmatched_superscript_price_def response_shape_def)
  have idx: "dealer_index repr unmatched_superscript_price ''7'' = None"
    by (simp add: unmatched_superscript_price_def row_eval)
  have "iter_inventory_rows repr unmatched_superscript_price = Inl ValueError"
    by (simp add: flatten_shape [OF sh])
       (simp add: unmatched_superscript_price_def dict_get_def item_rows_shape format_price_def
          guard_eval)
  with idx show ?thesis by simp
qed

text \<open>
  C4: the flattener is to give exactly one row for each VIN entry with a non-empty VIN.
  The response below is the one of dealer \<open>"100"\<close>, \<open>"Acme"\<close>, with the VIN
  entries \<open>"X1"\<close> and \<open>""\<close>, and the MSRP made of the character U+00B2 on its
  item: the flattener raises \<open>ValueError\<close> and gives no row for \<open>"X1"\<close>.
\<close>

theorem acme_superscript_price_raises:
  "iter_inventory_rows repr acme_superscript_price = Inl ValueError"
proof -
  have sh: "response_shape acme_superscript_price"
    by (simp add: acme_superscript_price_def response_shape_def)
  show ?thesis
    by (simp add: flatten_shape [OF sh])
       (simp add: acme_superscript_price_def dict_get_def item_rows_shape format_price_def
          guard_eval)
qed


end
